theory Spec2Isabelle
  imports Complex_Main
begin

section \<open>Data model of \<open>src/model/mt5.py\<close>\<close>

text \<open>
  Python floats are modelled as exact rationals: every product, quotient, floor and rounding
  below is the exact one, so rounding error of the binary representation is not part of this
  development. The average true range is the one float the source tests with
  \<open>math.isfinite\<close>, so it carries the non-finite values explicitly.
\<close>

datatype pyfloat = Finite rat | PosInf | NegInf | NaN

text \<open>
  Exceptions of class \<open>Exception\<close>. \<open>BrokerError\<close> stands for whatever a call into
  the MetaTrader5 module raises; the others are raised by the source itself or by the
  interpreter on the source's own expressions.
\<close>

datatype exn =
    BrokerError string
  | RuntimeError string
  | AttributeError
  | TypeError
  | ZeroDivisionError

text \<open>What a call into the broker module does: it raises, returns \<open>None\<close>, or returns a value.\<close>

datatype 'a resp = Raises exn | RetNone | Ret 'a

record AccountInfo =
  balance :: rat
  margin_free :: rat

record SymbolInfo =
  trade_contract_size :: rat
  volume_step :: rat
  volume_min :: rat
  volume_max :: rat
  point :: rat
  trade_stops_level :: int
  digits :: int

record Tick =
  tick_time :: int
  bid :: rat
  ask :: rat

datatype order_type = ORDER_TYPE_BUY | ORDER_TYPE_SELL

datatype position_type = POSITION_TYPE_BUY | POSITION_TYPE_SELL

record TradePosition =
  pos_type :: position_type
  pos_volume :: rat
  pos_profit :: rat

datatype trade_action = TRADE_ACTION_DEAL

datatype order_time = ORDER_TIME_GTC

datatype order_filling = ORDER_FILLING_IOC

text \<open>The request dictionary built by \<open>_send_order\<close>; \<open>sl\<close> and \<open>tp\<close> are keys that may be absent.\<close>

record order_request =
  req_action :: trade_action
  req_symbol :: string
  req_volume :: rat
  req_type :: order_type
  req_price :: rat
  req_deviation :: int
  req_magic :: int
  req_comment :: string
  req_type_time :: order_time
  req_type_filling :: order_filling
  req_sl :: "rat option"
  req_tp :: "rat option"

record OrderSendResult =
  retcode :: int
  res_price :: rat
  res_comment :: string

definition TRADE_RETCODE_DONE :: int where
  "TRADE_RETCODE_DONE = 10009"

text \<open>
  The MetaTrader5 module as the strategy uses it. The broker is outside the program, so each
  call takes the broker's state \<open>'b\<close> and returns its answer with the next state: two calls
  of the same function may answer differently.
\<close>

record 'b mt5 =
  account_info :: "'b \<Rightarrow> AccountInfo resp \<times> 'b"
  symbol_info :: "string \<Rightarrow> 'b \<Rightarrow> SymbolInfo resp \<times> 'b"
  symbol_info_tick :: "string \<Rightarrow> 'b \<Rightarrow> Tick resp \<times> 'b"
  order_calc_margin :: "order_type \<Rightarrow> string \<Rightarrow> rat \<Rightarrow> rat \<Rightarrow> 'b \<Rightarrow> rat resp \<times> 'b"
  order_send :: "order_request \<Rightarrow> 'b \<Rightarrow> OrderSendResult resp \<times> 'b"
  positions_get :: "string \<Rightarrow> 'b \<Rightarrow> TradePosition list resp \<times> 'b"

text \<open>\<open>LiveTradingStrategy.params\<close>.\<close>

record params =
  fast :: int
  slow :: int
  risk_pct :: rat
  atr_period :: int
  stop_atr_mult :: rat
  take_profit_mult :: rat
  symbol :: string
  lot_min :: rat
  lot_max :: rat
  max_positions :: int

definition default_params :: params where
  "default_params = \<lparr> fast = 20, slow = 50, risk_pct = 2 / 100, atr_period = 14,
     stop_atr_mult = 2, take_profit_mult = 3, symbol = ''XAUUSD'', lot_min = 1 / 100,
     lot_max = 10, max_positions = 1 \<rparr>"

text \<open>The two attributes of the strategy that \<open>next\<close> and its helpers mutate.\<close>

record strategy =
  position_count :: int
  last_signal_minute :: "int option"

definition strategy_init :: strategy where
  "strategy_init = \<lparr> position_count = 0, last_signal_minute = None \<rparr>"

text \<open>What \<open>self.log\<close> prints, one constructor per message of the source.\<close>

datatype log_msg =
    CannotFetchAccountInfo
  | OpenLong rat rat int rat
  | OpenFailed string
  | OpenError exn
  | Closed string rat
  | CloseFailed string
  | OrderError exn

text \<open>
  The observable events of a run: a logged line, and a call of \<open>mt5.order_send\<close> with the
  request submitted and what the broker answered.
\<close>

datatype event = Log log_msg | Sent order_request "OrderSendResult resp"

record 'b world =
  strat :: strategy
  brk :: 'b
  trace :: "event list"

definition log :: "log_msg \<Rightarrow> 'b world \<Rightarrow> 'b world" where
  "log msg w = w\<lparr>trace := trace w @ [Log msg]\<rparr>"

section \<open>Arithmetic of the interpreter\<close>

text \<open>Float division raises on a zero divisor.\<close>

definition py_div :: "rat \<Rightarrow> rat \<Rightarrow> exn + rat" where
  "py_div a b = (if b = 0 then Inl ZeroDivisionError else Inr (a / b))"

text \<open>\<open>int(x)\<close> truncates toward zero.\<close>

definition py_int :: "rat \<Rightarrow> int" where
  "py_int x = (if 0 \<le> x then \<lfloor>x\<rfloor> else \<lceil>x\<rceil>)"

text \<open>\<open>round\<close> rounds to the nearest value and a tie to the even neighbour.\<close>

definition round_half_even :: "rat \<Rightarrow> int" where
  "round_half_even x =
     (let f = \<lfloor>x\<rfloor>; d = x - of_int f
      in if d < 1 / 2 then f else if 1 / 2 < d then f + 1 else if even f then f else f + 1)"

definition py_round :: "rat \<Rightarrow> int \<Rightarrow> rat" where
  "py_round x n =
     (if 0 \<le> n then of_int (round_half_even (x * 10 ^ nat n)) / 10 ^ nat n
      else of_int (round_half_even (x / 10 ^ nat (- n))) * 10 ^ nat (- n))"

section \<open>Position sizing inside \<open>_open_long\<close>\<close>

text \<open>
  \<open>not math.isfinite(self.atr[0]) or self.atr[0] <= 0\<close>: the guard that leaves \<open>_open_long\<close>
  before anything else happens.
\<close>

fun atr_rejected :: "pyfloat \<Rightarrow> bool" where
  "atr_rejected (Finite a) = (a \<le> 0)"
| "atr_rejected _ = True"

text \<open>
  \<open>stop_dist = atr * stop_atr_mult; risk_amt = balance * risk_pct;
  lot = risk_amt / (stop_dist * trade_contract_size)\<close>.
\<close>

definition stop_dist :: "params \<Rightarrow> rat \<Rightarrow> rat" where
  "stop_dist p a = a * stop_atr_mult p"

definition risk_amt :: "params \<Rightarrow> rat \<Rightarrow> rat" where
  "risk_amt p bal = bal * risk_pct p"

definition raw_lot :: "params \<Rightarrow> rat \<Rightarrow> rat \<Rightarrow> SymbolInfo \<Rightarrow> exn + rat" where
  "raw_lot p bal a sym_info =
     py_div (risk_amt p bal) (stop_dist p a * trade_contract_size sym_info)"

text \<open>
  \<open>lot = max(vmin, min(lot, vmax)); lot = math.floor(lot/step) * step; lot = round(lot, 2)\<close>.
\<close>

definition volume_clamp_step :: "SymbolInfo \<Rightarrow> rat \<Rightarrow> exn + rat" where
  "volume_clamp_step sym_info lot =
     (let step = volume_step sym_info; vmin = volume_min sym_info; vmax = volume_max sym_info;
          lot1 = max vmin (min lot vmax)
      in if step = 0 then Inl ZeroDivisionError
         else Inr (py_round (of_int \<lfloor>lot1 / step\<rfloor> * step) 2))"

text \<open>\<open>sl_pts = max(int(stop_dist/point), trade_stops_level + 5)\<close>.\<close>

definition stop_points :: "SymbolInfo \<Rightarrow> rat \<Rightarrow> exn + int" where
  "stop_points sym_info sd =
     (if point sym_info = 0 then Inl ZeroDivisionError
      else Inr (max (py_int (sd / point sym_info)) (trade_stops_level sym_info + 5)))"

text \<open>\<open>tp_pts = sl_pts * take_profit_mult\<close>.\<close>

definition take_profit_points :: "params \<Rightarrow> int \<Rightarrow> rat" where
  "take_profit_points p sl_pts = of_int sl_pts * take_profit_mult p"

section \<open>Order submission: \<open>_send_order\<close>\<close>

text \<open>
  The whole body is inside \<open>try ... except Exception\<close>: whatever is raised is logged as
  \<open>Order error\<close> and the function returns \<open>None\<close>. A missing tick raises the source's own
  \<open>RuntimeError\<close>; a missing symbol info fails at \<open>info.digits\<close>. The stop and the target are
  added only when the points passed in are truthy (neither \<open>None\<close> nor zero). The parameter
  \<open>now\<close> of the source is never read and is left out.
\<close>

definition build_request ::
  "string \<Rightarrow> rat \<Rightarrow> order_type \<Rightarrow> int option \<Rightarrow> rat option \<Rightarrow> string \<Rightarrow> Tick \<Rightarrow> SymbolInfo
     \<Rightarrow> order_request" where
  "build_request sy lot typ sl_points tp_points cmt tick info =
     (let price = (if typ = ORDER_TYPE_BUY then ask tick else bid tick);
          req = \<lparr> req_action = TRADE_ACTION_DEAL, req_symbol = sy, req_volume = lot,
                  req_type = typ, req_price = py_round price (digits info),
                  req_deviation = 20, req_magic = 20250620, req_comment = cmt,
                  req_type_time = ORDER_TIME_GTC, req_type_filling = ORDER_FILLING_IOC,
                  req_sl = None, req_tp = None \<rparr>;
          req1 = (case sl_points of
                    None \<Rightarrow> req
                  | Some sl \<Rightarrow>
                      if sl = 0 then req
                      else req\<lparr>req_sl := Some
                        (if typ = ORDER_TYPE_BUY
                         then py_round (price - of_int sl * point info) (digits info)
                         else py_round (price + of_int sl * point info) (digits info))\<rparr>)
      in (case tp_points of
            None \<Rightarrow> req1
          | Some tp \<Rightarrow>
              if tp = 0 then req1
              else req1\<lparr>req_tp := Some
                (if typ = ORDER_TYPE_BUY
                 then py_round (price + tp * point info) (digits info)
                 else py_round (price - tp * point info) (digits info))\<rparr>))"

definition send_order ::
  "'b mt5 \<Rightarrow> string \<Rightarrow> rat \<Rightarrow> order_type \<Rightarrow> int option \<Rightarrow> rat option \<Rightarrow> string \<Rightarrow> 'b world
     \<Rightarrow> OrderSendResult option \<times> 'b world" where
  "send_order m sy lot typ sl_points tp_points cmt w =
     (case symbol_info_tick m sy (brk w) of
        (Raises e, b1) \<Rightarrow> (None, log (OrderError e) (w\<lparr>brk := b1\<rparr>))
      | (RetNone, b1) \<Rightarrow> (None, log (OrderError (RuntimeError ''No tick data'')) (w\<lparr>brk := b1\<rparr>))
      | (Ret tick, b1) \<Rightarrow>
          (case symbol_info m sy b1 of
             (Raises e, b2) \<Rightarrow> (None, log (OrderError e) (w\<lparr>brk := b2\<rparr>))
           | (RetNone, b2) \<Rightarrow> (None, log (OrderError AttributeError) (w\<lparr>brk := b2\<rparr>))
           | (Ret info, b2) \<Rightarrow>
               (let req = build_request sy lot typ sl_points tp_points cmt tick info
                in case order_send m req b2 of
                     (Raises e, b3) \<Rightarrow>
                       (None, log (OrderError e)
                          (w\<lparr>brk := b3, trace := trace w @ [Sent req (Raises e)]\<rparr>))
                   | (RetNone, b3) \<Rightarrow>
                       (None, w\<lparr>brk := b3, trace := trace w @ [Sent req RetNone]\<rparr>)
                   | (Ret res, b3) \<Rightarrow>
                       (Some res, w\<lparr>brk := b3, trace := trace w @ [Sent req (Ret res)]\<rparr>))))"

section \<open>Opening a long position: \<open>_open_long\<close>\<close>

text \<open>
  \<open>if margin_per_lot > 0: free = mt5.account_info().margin_free; lot = min(lot, free / margin_per_lot)\<close>.
  A margin of \<open>None\<close> fails at the comparison, an account info of \<open>None\<close> at the attribute.
\<close>

definition margin_capped_lot :: "'b mt5 \<Rightarrow> rat resp \<Rightarrow> rat \<Rightarrow> 'b \<Rightarrow> (exn + rat) \<times> 'b" where
  "margin_capped_lot m margin lot b =
     (case margin of
        Raises e \<Rightarrow> (Inl e, b)
      | RetNone \<Rightarrow> (Inl TypeError, b)
      | Ret margin_per_lot \<Rightarrow>
          if 0 < margin_per_lot then
            (case account_info m b of
               (Raises e, b') \<Rightarrow> (Inl e, b')
             | (RetNone, b') \<Rightarrow> (Inl AttributeError, b')
             | (Ret info, b') \<Rightarrow> (Inr (min lot (margin_free info / margin_per_lot)), b'))
          else (Inr lot, b))"

text \<open>
  The body of the \<open>try\<close> in \<open>_open_long\<close>, after the guard on the average true range has let the
  finite, positive value \<open>a\<close> through. The first component is the exception that reaches the
  \<open>except\<close> clause, if any. A missing tick returns silently; a result of \<open>None\<close> from
  \<open>_send_order\<close> fails at \<open>res.retcode\<close>.
\<close>

definition open_long_body ::
  "'b mt5 \<Rightarrow> params \<Rightarrow> rat \<Rightarrow> rat \<Rightarrow> 'b world \<Rightarrow> exn option \<times> 'b world" where
  "open_long_body m p bal a w =
     (case symbol_info m (symbol p) (brk w) of
        (Raises e, b1) \<Rightarrow> (Some e, w\<lparr>brk := b1\<rparr>)
      | (RetNone, b1) \<Rightarrow> (Some (RuntimeError ''No symbol info''), w\<lparr>brk := b1\<rparr>)
      | (Ret sym_info, b1) \<Rightarrow>
      (case symbol_info_tick m (symbol p) b1 of
        (Raises e, b2) \<Rightarrow> (Some e, w\<lparr>brk := b2\<rparr>)
      | (RetNone, b2) \<Rightarrow> (None, w\<lparr>brk := b2\<rparr>)
      | (Ret tick, b2) \<Rightarrow>
      (case order_calc_margin m ORDER_TYPE_BUY (symbol p) 1 (ask tick) b2 of
        (Raises e, b3) \<Rightarrow> (Some e, w\<lparr>brk := b3\<rparr>)
      | (margin, b3) \<Rightarrow>
      (case raw_lot p bal a sym_info of
        Inl e \<Rightarrow> (Some e, w\<lparr>brk := b3\<rparr>)
      | Inr lot \<Rightarrow>
      (case margin_capped_lot m margin lot b3 of
        (Inl e, b4) \<Rightarrow> (Some e, w\<lparr>brk := b4\<rparr>)
      | (Inr lot2, b4) \<Rightarrow>
      (case volume_clamp_step sym_info lot2 of
        Inl e \<Rightarrow> (Some e, w\<lparr>brk := b4\<rparr>)
      | Inr lot3 \<Rightarrow>
      (case stop_points sym_info (stop_dist p a) of
        Inl e \<Rightarrow> (Some e, w\<lparr>brk := b4\<rparr>)
      | Inr sl_pts \<Rightarrow>
      (let tp_pts = take_profit_points p sl_pts
       in case send_order m (symbol p) lot3 ORDER_TYPE_BUY (Some sl_pts) (Some tp_pts) []
                 (w\<lparr>brk := b4\<rparr>) of
            (None, w5) \<Rightarrow> (Some AttributeError, w5)
          | (Some res, w5) \<Rightarrow>
              if retcode res = TRADE_RETCODE_DONE
              then (None, log (OpenLong lot3 (res_price res) sl_pts tp_pts)
                     (w5\<lparr>strat := (strat w5)\<lparr>position_count := position_count (strat w5) + 1\<rparr>\<rparr>))
              else (None, log (OpenFailed (res_comment res)) w5)))))))))"

text \<open>
  \<open>_open_long\<close>: the guard, then the body with every exception turned into an \<open>Open error\<close>
  line. The parameters \<open>price\<close> and \<open>now\<close> of the source are only passed on to \<open>_send_order\<close>'s
  unused \<open>now\<close>, so they do not appear.
\<close>

definition open_long :: "'b mt5 \<Rightarrow> params \<Rightarrow> rat \<Rightarrow> pyfloat \<Rightarrow> 'b world \<Rightarrow> 'b world" where
  "open_long m p bal atr_now w =
     (case atr_now of
        Finite a \<Rightarrow>
          if a \<le> 0 then w
          else (case open_long_body m p bal a w of
                  (None, w') \<Rightarrow> w'
                | (Some e, w') \<Rightarrow> log (OpenError e) w')
      | _ \<Rightarrow> w)"

section \<open>Closing every position: \<open>_close_all\<close>\<close>

definition opposing :: "position_type \<Rightarrow> order_type" where
  "opposing t = (if t = POSITION_TYPE_BUY then ORDER_TYPE_SELL else ORDER_TYPE_BUY)"

text \<open>
  The \<open>for\<close> loop over the reported positions. Nothing here is inside a \<open>try\<close>: when
  \<open>_send_order\<close> returns \<open>None\<close>, reading \<open>res.retcode\<close> raises and the loop is left with the
  remaining positions untouched.
\<close>

fun close_positions ::
  "'b mt5 \<Rightarrow> params \<Rightarrow> string \<Rightarrow> TradePosition list \<Rightarrow> 'b world \<Rightarrow> exn option \<times> 'b world" where
  "close_positions m p reason [] w = (None, w)"
| "close_positions m p reason (q # qs) w =
     (case send_order m (symbol p) (pos_volume q) (opposing (pos_type q)) None None reason w of
        (None, w1) \<Rightarrow> (Some AttributeError, w1)
      | (Some res, w1) \<Rightarrow>
          close_positions m p reason qs
            (if retcode res = TRADE_RETCODE_DONE
             then log (Closed reason (pos_profit q))
                    (w1\<lparr>strat := (strat w1)\<lparr>position_count := max 0 (position_count (strat w1) - 1)\<rparr>\<rparr>)
             else log (CloseFailed (res_comment res)) w1))"

text \<open>\<open>pos = mt5.positions_get(symbol=...); if not pos: return\<close>, then the loop.\<close>

definition close_all :: "'b mt5 \<Rightarrow> params \<Rightarrow> string \<Rightarrow> 'b world \<Rightarrow> exn option \<times> 'b world" where
  "close_all m p reason w =
     (case positions_get m (symbol p) (brk w) of
        (Raises e, b1) \<Rightarrow> (Some e, w\<lparr>brk := b1\<rparr>)
      | (RetNone, b1) \<Rightarrow> (None, w\<lparr>brk := b1\<rparr>)
      | (Ret pos, b1) \<Rightarrow> close_positions m p reason pos (w\<lparr>brk := b1\<rparr>))"

section \<open>The decision cycle: \<open>next\<close>\<close>

text \<open>
  What one call of \<open>next\<close> reads from the data feed and the indicators: the bar's time in
  seconds, its close, \<open>len(self.sma_slow)\<close>, and the current values of the crossover and of the
  average true range. The indicators are computed by the backtrader library, so their values
  are inputs here.
\<close>

record bar_input =
  now :: int
  close_price :: rat
  hist_len :: int
  crossover :: int
  atr :: pyfloat

text \<open>\<open>now.replace(second=0, microsecond=0)\<close>.\<close>

definition minute_bucket :: "int \<Rightarrow> int" where
  "minute_bucket t = t - t mod 60"

datatype signal = SigOpenLong | SigCloseAll | SigNone

text \<open>The \<open>if ... elif ...\<close> at the end of \<open>next\<close>.\<close>

definition signal_of :: "params \<Rightarrow> bar_input \<Rightarrow> strategy \<Rightarrow> signal" where
  "signal_of p x s =
     (if 0 < crossover x \<and> position_count s < max_positions p then SigOpenLong
      else if crossover x < 0 then SigCloseAll
      else SigNone)"

definition set_last_signal_minute :: "int \<Rightarrow> 'b world \<Rightarrow> 'b world" where
  "set_last_signal_minute mi w = w\<lparr>strat := (strat w)\<lparr>last_signal_minute := Some mi\<rparr>\<rparr>"

text \<open>
  One call of \<open>next\<close>. The second component is the exception that leaves \<open>next\<close>, if any:
  \<open>mt5.account_info\<close> and \<open>_close_all\<close> are called outside any \<open>try\<close>. When \<open>_close_all\<close> raises,
  the assignment to \<open>last_signal_minute\<close> after it is not reached.
\<close>

definition next_cycle :: "'b mt5 \<Rightarrow> params \<Rightarrow> bar_input \<Rightarrow> 'b world \<Rightarrow> 'b world \<times> exn option" where
  "next_cycle m p x w =
     (let mi = minute_bucket (now x)
      in if Some mi = last_signal_minute (strat w) then (w, None)
         else if hist_len x < slow p then (w, None)
         else (case account_info m (brk w) of
                 (Raises e, b1) \<Rightarrow> (w\<lparr>brk := b1\<rparr>, Some e)
               | (RetNone, b1) \<Rightarrow> (log CannotFetchAccountInfo (w\<lparr>brk := b1\<rparr>), None)
               | (Ret info, b1) \<Rightarrow>
                   (case signal_of p x (strat w) of
                      SigOpenLong \<Rightarrow>
                        (set_last_signal_minute mi
                           (open_long m p (balance info) (atr x) (w\<lparr>brk := b1\<rparr>)), None)
                    | SigCloseAll \<Rightarrow>
                        (case close_all m p ''DeathCross'' (w\<lparr>brk := b1\<rparr>) of
                           (Some e, w1) \<Rightarrow> (w1, Some e)
                         | (None, w1) \<Rightarrow> (set_last_signal_minute mi w1, None))
                    | SigNone \<Rightarrow> (w\<lparr>brk := b1\<rparr>, None))))"

text \<open>
  The decision loop: \<open>next\<close> once per item of the feed, in the order the feed delivers them,
  until an exception leaves \<open>next\<close>.
\<close>

fun run :: "'b mt5 \<Rightarrow> params \<Rightarrow> bar_input list \<Rightarrow> 'b world \<Rightarrow> 'b world \<times> exn option" where
  "run m p [] w = (w, None)"
| "run m p (x # xs) w =
     (case next_cycle m p x w of
        (w1, Some e) \<Rightarrow> (w1, Some e)
      | (w1, None) \<Rightarrow> run m p xs w1)"

text \<open>
  A cycle attempts a decision when it reaches the call of \<open>_open_long\<close> or of \<open>_close_all\<close>.
\<close>

definition attempts :: "'b mt5 \<Rightarrow> params \<Rightarrow> bar_input \<Rightarrow> 'b world \<Rightarrow> bool" where
  "attempts m p x w =
     (Some (minute_bucket (now x)) \<noteq> last_signal_minute (strat w) \<and> \<not> hist_len x < slow p \<and>
      (case fst (account_info m (brk w)) of Ret info \<Rightarrow> signal_of p x (strat w) \<noteq> SigNone
       | _ \<Rightarrow> False))"

text \<open>The events a call added to the trace.\<close>

definition new_events :: "'b world \<Rightarrow> 'b world \<Rightarrow> event list" where
  "new_events w w' = drop (length (trace w)) (trace w')"

text \<open>The requests submitted in a trace, in order.\<close>

fun submitted :: "event list \<Rightarrow> order_request list" where
  "submitted [] = []"
| "submitted (Sent r a # es) = r # submitted es"
| "submitted (Log l # es) = submitted es"

text \<open>The number of submissions in a trace that the broker confirmed as done.\<close>

fun confirmed :: "event list \<Rightarrow> nat" where
  "confirmed [] = 0"
| "confirmed (Sent r (Ret res) # es) =
     (if retcode res = TRADE_RETCODE_DONE then Suc (confirmed es) else confirmed es)"
| "confirmed (e # es) = confirmed es"

text \<open>
  The position count after \<open>k\<close> confirmed closures, each of them
  \<open>self.position_count = max(0, self.position_count - 1)\<close>.
\<close>

definition count_after :: "int \<Rightarrow> nat \<Rightarrow> int" where
  "count_after c k = (if k = 0 then c else max 0 (c - int k))"


section \<open>The live data feed: \<open>MT5LiveDataFeed\<close>\<close>














section \<open>How a submitted opening order was sized\<close>


section \<open>Concrete brokers and inputs\<close>

text \<open>A broker that gives the same answer to every call of each function.\<close>

definition fixed_broker ::
  "AccountInfo resp \<Rightarrow> SymbolInfo resp \<Rightarrow> Tick resp \<Rightarrow> rat resp \<Rightarrow> OrderSendResult resp
     \<Rightarrow> TradePosition list resp \<Rightarrow> unit mt5" where
  "fixed_broker acc si tk mg res pos =
     \<lparr> account_info = (\<lambda>b. (acc, b)),
       symbol_info = (\<lambda>s b. (si, b)),
       symbol_info_tick = (\<lambda>s b. (tk, b)),
       order_calc_margin = (\<lambda>t s v pr b. (mg, b)),
       order_send = (\<lambda>r b. (res, b)),
       positions_get = (\<lambda>s b. (pos, b)) \<rparr>"

definition gold_info :: SymbolInfo where
  "gold_info = \<lparr> trade_contract_size = 100, volume_step = 1 / 100, volume_min = 1 / 100,
     volume_max = 10, point = 1 / 100, trade_stops_level = 0, digits = 2 \<rparr>"

definition gold_tick :: Tick where
  "gold_tick = \<lparr> tick_time = 1700000000, bid = 2000, ask = 2001 \<rparr>"

definition done_result :: OrderSendResult where
  "done_result = \<lparr> retcode = 10009, res_price = 2001, res_comment = [] \<rparr>"

definition scenario_account :: AccountInfo where
  "scenario_account = \<lparr> balance = 10000, margin_free = 50 \<rparr>"

definition long_position :: TradePosition where
  "long_position = \<lparr> pos_type = POSITION_TYPE_BUY, pos_volume = 1 / 2, pos_profit = 12 \<rparr>"

definition world_init :: "unit world" where
  "world_init = \<lparr> strat = strategy_init, brk = (), trace = [] \<rparr>"

definition scenario_broker :: "unit mt5" where
  "scenario_broker = fixed_broker (Ret scenario_account) (Ret gold_info) (Ret gold_tick) (Ret 200)
     (Ret done_result) RetNone"

definition scenario_request :: order_request where
  "scenario_request = \<lparr> req_action = TRADE_ACTION_DEAL, req_symbol = ''XAUUSD'',
     req_volume = 1 / 4, req_type = ORDER_TYPE_BUY, req_price = 2001, req_deviation = 20,
     req_magic = 20250620, req_comment = [], req_type_time = ORDER_TIME_GTC,
     req_type_filling = ORDER_FILLING_IOC, req_sl = Some 1997, req_tp = Some 2013 \<rparr>"



definition fine_info :: SymbolInfo where
  "fine_info = \<lparr> trade_contract_size = 100, volume_step = 1 / 1000, volume_min = 1 / 1000,
     volume_max = 10, point = 1 / 100, trade_stops_level = 0, digits = 2 \<rparr>"

text \<open>A broker that reports one long position of 0.5 lots, and one that has no tick.\<close>

definition close_broker :: "unit mt5" where
  "close_broker = fixed_broker (Ret scenario_account) (Ret gold_info) (Ret gold_tick) (Ret 200)
     (Ret done_result) (Ret [long_position])"

definition no_tick_broker :: "unit mt5" where
  "no_tick_broker = fixed_broker (Ret scenario_account) (Ret gold_info) RetNone (Ret 200)
     (Ret done_result) (Ret [long_position])"

definition failing_positions_broker :: "unit mt5" where
  "failing_positions_broker = fixed_broker (Ret scenario_account) (Ret gold_info) (Ret gold_tick)
     (Ret 200) (Ret done_result) (Raises (BrokerError ''IPC timeout''))"

definition reject_result :: OrderSendResult where
  "reject_result = \<lparr> retcode = 10006, res_price = 0, res_comment = ''Request rejected'' \<rparr>"

definition reject_broker :: "unit mt5" where
  "reject_broker = fixed_broker (Ret scenario_account) (Ret gold_info) (Ret gold_tick) (Ret 200)
     (Ret reject_result) RetNone"

text \<open>A strategy that believes it holds one position.\<close>

definition holding_world :: "unit world" where
  "holding_world = \<lparr> strat = \<lparr> position_count = 1, last_signal_minute = None \<rparr>, brk = (),
     trace = [] \<rparr>"

text \<open>Bars: a golden cross, a death cross, a death cross on a flat market, and an early one.\<close>

definition cross_bar :: bar_input where
  "cross_bar = \<lparr> now = 1700000000, close_price = 2000, hist_len = 60, crossover = 1,
     atr = Finite 2 \<rparr>"

definition death_bar :: bar_input where
  "death_bar = \<lparr> now = 1700000000, close_price = 2000, hist_len = 60, crossover = - 1,
     atr = Finite 2 \<rparr>"

definition flat_bar :: bar_input where
  "flat_bar = \<lparr> now = 1700000000, close_price = 2000, hist_len = 60, crossover = - 1,
     atr = Finite 0 \<rparr>"

definition early_bar :: bar_input where
  "early_bar = \<lparr> now = 1700000000, close_price = 2000, hist_len = 12, crossover = - 1,
     atr = NaN \<rparr>"

definition short_params :: params where
  "short_params = default_params\<lparr>fast := 5, slow := 10\<rparr>"

text \<open>
  The states the concrete runs below end in, and a feed preloaded with two bars.
\<close>

definition rejected_world :: "unit world" where
  "rejected_world = \<lparr> strat = \<lparr> position_count = 0, last_signal_minute = Some 1699999980 \<rparr>,
     brk = (),
     trace = [Sent scenario_request (Ret reject_result), Log (OpenFailed ''Request rejected'')] \<rparr>"

definition closed_world :: "unit world" where
  "closed_world = \<lparr> strat = \<lparr> position_count = 0, last_signal_minute = None \<rparr>, brk = (),
     trace = [Sent \<lparr> req_action = TRADE_ACTION_DEAL, req_symbol = ''XAUUSD'', req_volume = 1 / 2,
                     req_type = ORDER_TYPE_SELL, req_price = 2000, req_deviation = 20,
                     req_magic = 20250620, req_comment = ''DeathCross'',
                     req_type_time = ORDER_TIME_GTC, req_type_filling = ORDER_FILLING_IOC,
                     req_sl = None, req_tp = None \<rparr> (Ret done_result),
              Log (Closed ''DeathCross'' 12)] \<rparr>"




section \<open>Traces and requests\<close>

lemma submitted_append: "submitted (xs @ ys) = submitted xs @ submitted ys"
  by (induction xs rule: submitted.induct) auto

lemma confirmed_append: "confirmed (xs @ ys) = confirmed xs + confirmed ys"
  by (induction xs rule: confirmed.induct) auto

lemma new_events_append: "trace w' = trace w @ evs \<Longrightarrow> new_events w w' = evs"
  by (simp add: new_events_def)

lemma build_request_fields:
  "req_volume (build_request sy lot typ sl tp c tick info) = lot"
  "req_type (build_request sy lot typ sl tp c tick info) = typ"
  "req_symbol (build_request sy lot typ sl tp c tick info) = sy"
  by (auto simp: build_request_def Let_def split: option.splits)

lemma send_order_Some:
  assumes "send_order m sy lot typ sl tp c w = (Some res, w')"
  shows "\<exists>tick b1 info b2 b3. symbol_info_tick m sy (brk w) = (Ret tick, b1) \<and>
           symbol_info m sy b1 = (Ret info, b2) \<and>
           order_send m (build_request sy lot typ sl tp c tick info) b2 = (Ret res, b3) \<and>
           w' = w\<lparr>brk := b3,
                  trace := trace w @ [Sent (build_request sy lot typ sl tp c tick info) (Ret res)]\<rparr>"
  using assms
  by (auto simp: send_order_def log_def Let_def split: prod.splits resp.splits)

lemma send_order_strat: "strat (snd (send_order m sy lot typ sl tp c w)) = strat w"
  by (auto simp: send_order_def log_def Let_def split: prod.splits resp.splits)


section \<open>Every order \<open>_open_long\<close> submits went through the whole sizing\<close>




section \<open>Evaluating the model on concrete inputs\<close>

lemma floor_rat_numeral: "\<lfloor>numeral a / numeral b :: rat\<rfloor> = numeral a div numeral b"
  using floor_divide_of_int_eq[of "numeral a" "numeral b", where ?'a = rat] by simp

lemmas sizing_defs = raw_lot_def stop_dist_def risk_amt_def py_div_def volume_clamp_step_def
  stop_points_def take_profit_points_def py_int_def py_round_def round_half_even_def
  margin_capped_lot_def floor_rat_numeral Let_def

lemmas broker_defs = fixed_broker_def gold_info_def gold_tick_def done_result_def
  scenario_account_def default_params_def world_init_def strategy_init_def TRADE_RETCODE_DONE_def

lemmas order_defs = open_long_def open_long_body_def send_order_def build_request_def log_def
  new_events_def


section \<open>The raw volume\<close>



section \<open>The clamp and step stage\<close>




text \<open>A step of 0.001 with a minimum of 0.001: the rounding to two decimals yields 0.\<close>

lemma floor_rat_one_numeral: "\<lfloor>1 / numeral b :: rat\<rfloor> = 1 div numeral b"
  using floor_divide_of_int_eq[of 1 "numeral b", where ?'a = rat] by simp

lemma fine_step_rounds_below_minimum:
  "volume_clamp_step fine_info (1 / 1000) = Inr 0 \<and> volume_min fine_info = 1 / 1000"
  by (simp add: fine_info_def sizing_defs floor_rat_one_numeral)




section \<open>Stop and target distances\<close>




section \<open>Guards of the decision cycle\<close>

lemmas cycle_defs = next_cycle_def close_all_def signal_of_def set_last_signal_minute_def
  minute_bucket_def

lemmas bar_defs = cross_bar_def death_bar_def flat_bar_def early_bar_def short_params_def
  holding_world_def close_broker_def no_tick_broker_def failing_positions_broker_def
  reject_broker_def reject_result_def long_position_def opposing_def

lemma open_long_rejected: "atr_rejected atr_now \<Longrightarrow> open_long m p bal atr_now w = w"
  by (cases atr_now) (simp_all add: open_long_def)

text \<open>
  Claim C6, as the code has it. When the average true range is non-finite or not positive,
  \<open>_open_long\<close> returns at once: it builds no request, calls the broker for nothing and
  changes nothing. A cycle with such a value therefore submits no order and keeps the position
  count, unless its decision is to close all (the crossover is negative): the closing orders
  do not depend on the average true range.
\<close>

theorem invalid_atr_opens_nothing:
  assumes rej: "atr_rejected (atr x)"
  shows "open_long m p bal (atr x) w = w \<and>
         (\<not> crossover x < 0 \<longrightarrow>
            submitted (trace (fst (next_cycle m p x w))) = submitted (trace w) \<and>
            position_count (strat (fst (next_cycle m p x w))) = position_count (strat w))"
proof -
  have ol: "\<And>bal w. open_long m p bal (atr x) w = w"
    using rej by (rule open_long_rejected)
  have "\<not> crossover x < 0 \<Longrightarrow>
        submitted (trace (fst (next_cycle m p x w))) = submitted (trace w) \<and>
        position_count (strat (fst (next_cycle m p x w))) = position_count (strat w)"
    by (auto simp: next_cycle_def Let_def signal_of_def set_last_signal_minute_def ol log_def
          submitted_append split: prod.splits resp.splits)
  with ol show ?thesis by simp
qed

theorem invalid_atr_opens_nothing_witness:
  "atr_rejected (atr (cross_bar\<lparr>atr := NaN\<rparr>)) \<and>
   open_long scenario_broker default_params 10000 (atr (cross_bar\<lparr>atr := NaN\<rparr>)) world_init
     = world_init \<and>
   \<not> crossover (cross_bar\<lparr>atr := NaN\<rparr>) < 0 \<and>
   submitted (trace (fst (next_cycle scenario_broker default_params (cross_bar\<lparr>atr := NaN\<rparr>) world_init)))
     = submitted (trace world_init) \<and>
   position_count (strat (fst (next_cycle scenario_broker default_params (cross_bar\<lparr>atr := NaN\<rparr>) world_init)))
     = position_count (strat world_init)"
proof -
  have h: "atr_rejected (atr (cross_bar\<lparr>atr := NaN\<rparr>))" by simp
  have c: "\<not> crossover (cross_bar\<lparr>atr := NaN\<rparr>) < 0" by (simp add: cross_bar_def)
  show ?thesis
    using invalid_atr_opens_nothing[OF h, of scenario_broker default_params 10000 world_init] h c
    by blast
qed

text \<open>
  A death cross on a flat market: the average true range is 0, the broker reports a position
  of 0.5 lots, and the cycle submits the order that closes it.
\<close>

theorem close_all_ignores_atr:
  "atr_rejected (atr flat_bar) \<and>
   map req_volume (submitted (trace (fst (next_cycle close_broker default_params flat_bar world_init))))
     = [1 / 2]"
  by (simp add: cycle_defs bar_defs order_defs broker_defs sizing_defs)




text \<open>
  Claim C1 at two inputs where the claim and the code part. A death cross with one reported
  position and no tick: \<open>_send_order\<close> catches its own \<open>RuntimeError\<close>, logs it and returns
  \<open>None\<close>, and \<open>_close_all\<close> then reads \<open>res.retcode\<close> outside any \<open>try\<close>, so an
  \<open>AttributeError\<close> leaves \<open>next\<close>. A death cross where \<open>mt5.positions_get\<close> raises: the
  exception leaves \<open>next\<close> as it is.
\<close>

theorem close_all_exception_leaves_next:
  "next_cycle no_tick_broker default_params death_bar holding_world =
     (holding_world\<lparr>trace := [Log (OrderError (RuntimeError ''No tick data''))]\<rparr>,
      Some AttributeError) \<and>
   next_cycle failing_positions_broker default_params death_bar holding_world =
     (holding_world, Some (BrokerError ''IPC timeout''))"
  by (simp add: cycle_defs bar_defs order_defs broker_defs sizing_defs)

section \<open>One attempt per minute\<close>

lemma minute_bucket_mono: "s \<le> t \<Longrightarrow> minute_bucket s \<le> minute_bucket t"
proof -
  assume "s \<le> t"
  then have "s div 60 \<le> t div 60" by (rule zdiv_mono1) simp
  moreover have "minute_bucket u = 60 * (u div 60)" for u
    by (simp add: minute_bucket_def minus_mod_eq_mult_div)
  ultimately show ?thesis by simp
qed

lemma next_cycle_same_bucket:
  "last_signal_minute (strat w) = Some (minute_bucket (now x)) \<Longrightarrow>
     next_cycle m p x w = (w, None) \<and> \<not> attempts m p x w"
  by (simp add: next_cycle_def attempts_def Let_def)

lemma next_cycle_records_attempt:
  assumes "attempts m p x w" and "next_cycle m p x w = (w1, None)"
  shows "last_signal_minute (strat w1) = Some (minute_bucket (now x))"
  using assms
  by (auto simp: next_cycle_def attempts_def Let_def set_last_signal_minute_def
        split: prod.splits resp.splits signal.splits option.splits if_splits)

lemma run_same_bucket:
  assumes "last_signal_minute (strat w) = Some b"
    and "\<forall>y \<in> set ys. minute_bucket (now y) = b"
  shows "run m p ys w = (w, None)"
  using assms by (induction ys) (simp_all add: next_cycle_same_bucket)

text \<open>
  Claim C3. Take a cycle that attempts a decision (it reaches \<open>_open_long\<close> or \<open>_close_all\<close>)
  and returns, whether or not the order went through, and a later cycle \<open>z\<close> in the same
  minute, with the cycles \<open>ys\<close> between them, in the order of their timestamps as the feed
  delivers them. Then every cycle after the first, up to and including \<open>z\<close>, attempts nothing
  and leaves the strategy, the broker and the trace as they were.
\<close>

theorem one_attempt_per_minute:
  assumes ordered: "sorted (map now (x # ys @ [z]))"
    and same: "minute_bucket (now z) = minute_bucket (now x)"
    and att: "attempts m p x w"
    and ret: "next_cycle m p x w = (w1, None)"
  shows "run m p (ys @ [z]) w1 = (w1, None) \<and> (\<forall>y \<in> set (ys @ [z]). \<not> attempts m p y w1)"
proof -
  have rec: "last_signal_minute (strat w1) = Some (minute_bucket (now x))"
    using att ret by (rule next_cycle_records_attempt)
  have all: "\<forall>y \<in> set (ys @ [z]). minute_bucket (now y) = minute_bucket (now x)"
  proof
    fix y assume y: "y \<in> set (ys @ [z])"
    have "now x \<le> now y" using ordered y by auto
    moreover have "now y \<le> now z" using ordered y by (auto simp: sorted_append)
    ultimately have "minute_bucket (now x) \<le> minute_bucket (now y)"
      and "minute_bucket (now y) \<le> minute_bucket (now z)"
      by (simp_all add: minute_bucket_mono)
    with same show "minute_bucket (now y) = minute_bucket (now x)" by simp
  qed
  have "run m p (ys @ [z]) w1 = (w1, None)"
    using rec all by (rule run_same_bucket)
  moreover have "\<forall>y \<in> set (ys @ [z]). \<not> attempts m p y w1"
    using rec all next_cycle_same_bucket[of w1 _ m p] by metis
  ultimately show ?thesis by simp
qed

text \<open>A golden cross whose order the broker rejects: the minute is recorded all the same.\<close>

lemma rejected_cycle:
  "next_cycle reject_broker default_params cross_bar world_init = (rejected_world, None)"
  by (simp add: rejected_world_def scenario_request_def cycle_defs bar_defs order_defs broker_defs
        sizing_defs)

theorem one_attempt_per_minute_witness:
  "sorted (map now (cross_bar # [cross_bar\<lparr>now := 1700000010\<rparr>] @ [cross_bar\<lparr>now := 1700000039\<rparr>])) \<and>
   minute_bucket (now (cross_bar\<lparr>now := 1700000039\<rparr>)) = minute_bucket (now cross_bar) \<and>
   attempts reject_broker default_params cross_bar world_init \<and>
   next_cycle reject_broker default_params cross_bar world_init = (rejected_world, None) \<and>
   run reject_broker default_params
     ([cross_bar\<lparr>now := 1700000010\<rparr>] @ [cross_bar\<lparr>now := 1700000039\<rparr>]) rejected_world
     = (rejected_world, None) \<and>
   \<not> attempts reject_broker default_params (cross_bar\<lparr>now := 1700000010\<rparr>) rejected_world \<and>
   \<not> attempts reject_broker default_params (cross_bar\<lparr>now := 1700000039\<rparr>) rejected_world"
proof -
  have h1: "sorted (map now (cross_bar # [cross_bar\<lparr>now := 1700000010\<rparr>] @ [cross_bar\<lparr>now := 1700000039\<rparr>]))"
    by (simp add: cross_bar_def)
  have h2: "minute_bucket (now (cross_bar\<lparr>now := 1700000039\<rparr>)) = minute_bucket (now cross_bar)"
    by (simp add: cross_bar_def minute_bucket_def)
  have h3: "attempts reject_broker default_params cross_bar world_init"
    by (simp add: attempts_def cycle_defs bar_defs broker_defs)
  show ?thesis
    using one_attempt_per_minute[OF h1 h2 h3 rejected_cycle] h1 h2 h3 rejected_cycle by simp
qed

text \<open>
  The strategy remembers the last minute only. Were the timestamps to step back into a minute
  after a later one was acted on, the earlier minute would be acted on again: here three
  golden crosses, the third one back in the minute of the first, each send an order (which
  the broker rejects).
\<close>

lemma earlier_minute_acts_again:
  "length (submitted (trace (fst (run reject_broker default_params
      [cross_bar, cross_bar\<lparr>now := 1700000060\<rparr>, cross_bar\<lparr>now := 1700000010\<rparr>] world_init)))) = 3"
  by (simp add: cycle_defs bar_defs order_defs broker_defs sizing_defs)

section \<open>Closing every position\<close>

lemma count_after_step: "count_after (max 0 (c - 1)) k = count_after c (Suc k)"
  by (auto simp: count_after_def)

lemma count_after_nonneg: "0 \<le> c \<Longrightarrow> 0 \<le> count_after c k"
  by (simp add: count_after_def)

lemma close_positions_done:
  assumes "close_positions m p reason qs w = (None, w')"
  shows "\<exists>evs. trace w' = trace w @ evs \<and>
           map (\<lambda>r. (req_type r, req_volume r)) (submitted evs)
             = map (\<lambda>q. (opposing (pos_type q), pos_volume q)) qs \<and>
           position_count (strat w') = count_after (position_count (strat w)) (confirmed evs) \<and>
           last_signal_minute (strat w') = last_signal_minute (strat w)"
  using assms
proof (induction qs arbitrary: w)
  case Nil
  then show ?case by (simp add: count_after_def)
next
  case (Cons q qs)
  let ?so = "send_order m (symbol p) (pos_volume q) (opposing (pos_type q)) None None reason w"
  obtain ro w1 where so: "?so = (ro, w1)" by force
  show ?case
  proof (cases ro)
    case None
    with Cons.prems so show ?thesis by simp
  next
    case (Some res)
    from send_order_Some[OF so[unfolded Some]] obtain req b3 where
      w1: "w1 = w\<lparr>brk := b3, trace := trace w @ [Sent req (Ret res)]\<rparr>"
      and rv: "req_volume req = pos_volume q" and rt: "req_type req = opposing (pos_type q)"
      by (auto simp: build_request_fields)
    let ?w2 = "if retcode res = TRADE_RETCODE_DONE
             then log (Closed reason (pos_profit q))
                    (w1\<lparr>strat := (strat w1)\<lparr>position_count := max 0 (position_count (strat w1) - 1)\<rparr>\<rparr>)
             else log (CloseFailed (res_comment res)) w1"
    have rest: "close_positions m p reason qs ?w2 = (None, w')"
      using Cons.prems so Some by simp
    from Cons.IH[OF rest] obtain evs where
      tr: "trace w' = trace ?w2 @ evs" and
      mp: "map (\<lambda>r. (req_type r, req_volume r)) (submitted evs)
             = map (\<lambda>q. (opposing (pos_type q), pos_volume q)) qs" and
      pc: "position_count (strat w') = count_after (position_count (strat ?w2)) (confirmed evs)" and
      ls: "last_signal_minute (strat w') = last_signal_minute (strat ?w2)"
      by blast
    show ?thesis
    proof (cases "retcode res = TRADE_RETCODE_DONE")
      case True
      let ?evs = "[Sent req (Ret res), Log (Closed reason (pos_profit q))] @ evs"
      have "trace w' = trace w @ ?evs" using tr True w1 by (simp add: log_def)
      moreover have "map (\<lambda>r. (req_type r, req_volume r)) (submitted ?evs)
             = map (\<lambda>q. (opposing (pos_type q), pos_volume q)) (q # qs)"
        using mp rv rt by simp
      moreover have "position_count (strat w') = count_after (position_count (strat w)) (confirmed ?evs)"
        using pc True w1 by (simp add: log_def count_after_step)
      moreover have "last_signal_minute (strat w') = last_signal_minute (strat w)"
        using ls True w1 by (simp add: log_def)
      ultimately show ?thesis by blast
    next
      case False
      let ?evs = "[Sent req (Ret res), Log (CloseFailed (res_comment res))] @ evs"
      have "trace w' = trace w @ ?evs" using tr False w1 by (simp add: log_def)
      moreover have "map (\<lambda>r. (req_type r, req_volume r)) (submitted ?evs)
             = map (\<lambda>q. (opposing (pos_type q), pos_volume q)) (q # qs)"
        using mp rv rt by simp
      moreover have "position_count (strat w') = count_after (position_count (strat w)) (confirmed ?evs)"
        using pc False w1 by (simp add: log_def)
      moreover have "last_signal_minute (strat w') = last_signal_minute (strat w)"
        using ls False w1 by (simp add: log_def)
      ultimately show ?thesis by blast
    qed
  qed
qed

text \<open>
  Claim C4, as the code has it. Whenever \<open>_close_all\<close> runs to its end, it has submitted
  exactly one order for each position the broker reported, in their order, of the opposing
  type and of exactly that position's volume, and the position count has gone down by one,
  never below 0, for each submission the broker confirmed as done and for no other. With a
  count of 1 and one reported long position of 0.5 lots that is one sell order of 0.5 lots
  and a count of 0. A run of \<open>_close_all\<close> that is cut short by an exception is not covered.
\<close>

theorem close_all_orders:
  assumes fin: "close_all m p reason w = (None, w')"
    and pos: "positions_get m (symbol p) (brk w) = (Ret pos, b1)"
  shows "map (\<lambda>r. (req_type r, req_volume r)) (submitted (new_events w w'))
           = map (\<lambda>q. (opposing (pos_type q), pos_volume q)) pos \<and>
         position_count (strat w')
           = count_after (position_count (strat w)) (confirmed (new_events w w')) \<and>
         (0 \<le> position_count (strat w) \<longrightarrow> 0 \<le> position_count (strat w'))"
proof -
  have "close_positions m p reason pos (w\<lparr>brk := b1\<rparr>) = (None, w')"
    using fin pos by (simp add: close_all_def)
  from close_positions_done[OF this] obtain evs where
    tr: "trace w' = trace w @ evs" and
    mp: "map (\<lambda>r. (req_type r, req_volume r)) (submitted evs)
           = map (\<lambda>q. (opposing (pos_type q), pos_volume q)) pos" and
    pc: "position_count (strat w') = count_after (position_count (strat w)) (confirmed evs)"
    by auto
  have "new_events w w' = evs" using tr by (rule new_events_append)
  with mp pc show ?thesis by (simp add: count_after_nonneg)
qed

lemma scenario_close_all:
  "close_all close_broker default_params ''DeathCross'' holding_world = (None, closed_world)"
  by (simp add: closed_world_def cycle_defs bar_defs order_defs broker_defs sizing_defs)

theorem close_all_orders_witness:
  "close_all close_broker default_params ''DeathCross'' holding_world = (None, closed_world) \<and>
   positions_get close_broker (symbol default_params) (brk holding_world) = (Ret [long_position], ()) \<and>
   position_count (strat holding_world) = 1 \<and>
   map (\<lambda>r. (req_type r, req_volume r)) (submitted (new_events holding_world closed_world))
     = [(ORDER_TYPE_SELL, 1 / 2)] \<and>
   confirmed (new_events holding_world closed_world) = 1 \<and>
   position_count (strat closed_world) = 0"
proof -
  have h2: "positions_get close_broker (symbol default_params) (brk holding_world)
              = (Ret [long_position], ())"
    by (simp add: close_broker_def fixed_broker_def)
  have c: "position_count (strat holding_world) = 1" by (simp add: holding_world_def)
  have o: "map (\<lambda>q. (opposing (pos_type q), pos_volume q)) [long_position] = [(ORDER_TYPE_SELL, 1 / 2)]"
    by (simp add: long_position_def opposing_def)
  have k: "confirmed (new_events holding_world closed_world) = 1"
    by (simp add: new_events_def holding_world_def closed_world_def done_result_def
          TRADE_RETCODE_DONE_def)
  have z: "count_after 1 1 = 0" by (simp add: count_after_def)
  show ?thesis
    using close_all_orders[OF scenario_close_all h2] scenario_close_all h2
    unfolding c o k z by simp
qed

text \<open>
  The broker reports one position and has no tick: \<open>_send_order\<close> cannot price the request
  and nothing is submitted for that position.
\<close>

theorem close_all_without_tick_sends_nothing:
  "positions_get no_tick_broker (symbol default_params) (brk holding_world)
     = (Ret [long_position], ()) \<and>
   submitted (trace (snd (close_all no_tick_broker default_params ''DeathCross'' holding_world))) = []"
  by (simp add: cycle_defs bar_defs order_defs broker_defs sizing_defs)

text \<open>
  Claim C9. When the cycle decides to close all and the broker reports no position (\<open>None\<close> or
  an empty tuple), the cycle submits nothing, logs nothing, keeps the position count, and
  only records the current minute: a stale positive count stays as it is.
\<close>

theorem empty_close_all_keeps_count:
  assumes fresh: "Some (minute_bucket (now x)) \<noteq> last_signal_minute (strat w)"
    and ready: "\<not> hist_len x < slow p"
    and acc: "account_info m (brk w) = (Ret info, b1)"
    and sig: "signal_of p x (strat w) = SigCloseAll"
    and pos: "positions_get m (symbol p) b1 = (r, b2)"
    and none: "r = RetNone \<or> r = Ret []"
  shows "next_cycle m p x w =
           (w\<lparr>strat := (strat w)\<lparr>last_signal_minute := Some (minute_bucket (now x))\<rparr>, brk := b2\<rparr>,
            None)"
  using assms
  by (auto simp: next_cycle_def Let_def close_all_def set_last_signal_minute_def)

theorem empty_close_all_keeps_count_witness:
  "Some (minute_bucket (now death_bar)) \<noteq> last_signal_minute (strat holding_world) \<and>
   \<not> hist_len death_bar < slow default_params \<and>
   account_info scenario_broker (brk holding_world) = (Ret scenario_account, ()) \<and>
   signal_of default_params death_bar (strat holding_world) = SigCloseAll \<and>
   positions_get scenario_broker (symbol default_params) () = (RetNone, ()) \<and>
   next_cycle scenario_broker default_params death_bar holding_world =
     (\<lparr> strat = \<lparr> position_count = 1, last_signal_minute = Some 1699999980 \<rparr>, brk = (),
        trace = [] \<rparr>, None)"
proof -
  have h1: "Some (minute_bucket (now death_bar)) \<noteq> last_signal_minute (strat holding_world)"
    by (simp add: holding_world_def)
  have h2: "\<not> hist_len death_bar < slow default_params"
    by (simp add: death_bar_def default_params_def)
  have h3: "account_info scenario_broker (brk holding_world) = (Ret scenario_account, ())"
    by (simp add: scenario_broker_def fixed_broker_def)
  have h4: "signal_of default_params death_bar (strat holding_world) = SigCloseAll"
    by (simp add: signal_of_def death_bar_def)
  have h5: "positions_get scenario_broker (symbol default_params) () = (RetNone, ())"
    by (simp add: scenario_broker_def fixed_broker_def)
  have h6: "RetNone = RetNone \<or> RetNone = Ret ([] :: TradePosition list)" by simp
  have e: "holding_world\<lparr>strat := (strat holding_world)\<lparr>last_signal_minute :=
              Some (minute_bucket (now death_bar))\<rparr>, brk := ()\<rparr> =
           \<lparr> strat = \<lparr> position_count = 1, last_signal_minute = Some 1699999980 \<rparr>, brk = (),
             trace = [] \<rparr>"
    by (simp add: holding_world_def death_bar_def minute_bucket_def)
  show ?thesis
    using empty_close_all_keeps_count[OF h1 h2 h3 h4 h5 h6] h1 h2 h3 h4 h5
    unfolding e by blast
qed

section \<open>The preload and the watermarks of the feed\<close>







end
